theory Spec2Isabelle
  imports Main "HOL-Library.Word"
begin

section \<open>JavaScript strings\<close>

text \<open>
  A JavaScript string is a sequence of UTF-16 code units. The page compares strings with
  \<^verbatim>\<open>===\<close> (equality of the code-unit sequences), tests them for truthiness (a string is
  falsy exactly when it is empty) and trims them with \<^verbatim>\<open>String.prototype.trim\<close>.
\<close>

type_synonym jschar = "16 word"
type_synonym jsstring = "jschar list"

text \<open>The code units of an ASCII literal of the source.\<close>

definition js :: "string \<Rightarrow> jsstring" where
  "js cs = map (\<lambda>c. of_nat (of_char c)) cs"

text \<open>
  \<^verbatim>\<open>trim\<close> removes leading and trailing WhiteSpace and LineTerminator code points
  (ECMA-262, TrimString): TAB, VT, FF, SP, NBSP, ZWNBSP, the other space separators of
  category Zs, and LF, CR, LS, PS. All of them are single code units.
\<close>

definition isWhiteSpace :: "jschar \<Rightarrow> bool" where
  "isWhiteSpace c =
     (c = 0x0009 \<or> c = 0x000B \<or> c = 0x000C \<or> c = 0x0020 \<or> c = 0x00A0 \<or> c = 0x1680 \<or>
      (0x2000 \<le> c \<and> c \<le> 0x200A) \<or> c = 0x202F \<or> c = 0x205F \<or> c = 0x3000 \<or>
      c = 0xFEFF)"

definition isLineTerminator :: "jschar \<Rightarrow> bool" where
  "isLineTerminator c = (c = 0x000A \<or> c = 0x000D \<or> c = 0x2028 \<or> c = 0x2029)"

definition isStrWhiteSpaceChar :: "jschar \<Rightarrow> bool" where
  "isStrWhiteSpaceChar c = (isWhiteSpace c \<or> isLineTerminator c)"

definition trimStart :: "jsstring \<Rightarrow> jsstring" where
  "trimStart s = dropWhile isStrWhiteSpaceChar s"

definition trimEnd :: "jsstring \<Rightarrow> jsstring" where
  "trimEnd s = rev (dropWhile isStrWhiteSpaceChar (rev s))"

definition trim :: "jsstring \<Rightarrow> jsstring" where
  "trim s = trimEnd (trimStart s)"

text \<open>Truthiness of a value of type \<^verbatim>\<open>string | null\<close>: null and the empty string are falsy.\<close>

definition truthy :: "jsstring option \<Rightarrow> bool" where
  "truthy p = (case p of None \<Rightarrow> False | Some s \<Rightarrow> s \<noteq> [])"

section \<open>The chat page's state\<close>

text \<open>
  A message of the polled log, with the fields the page reads
  (\<^verbatim>\<open>message.agent\<close>, \<^verbatim>\<open>message.content\<close>, \<^verbatim>\<open>message.timestamp\<close>).
\<close>

record message =
  agent :: jsstring
  content :: jsstring
  timestamp :: jsstring

text \<open>
  The state of \<^verbatim>\<open>PaperPage\<close> that the send and reconciliation code reads and writes: three
  \<^verbatim>\<open>useState\<close> cells and the \<^verbatim>\<open>useRef\<close> holding the length of the log at send time
  (a length, or -1 when no send is outstanding). The research page carries the same
  cells and the same handlers.
\<close>

record chat_state =
  inputMessage :: jsstring
  isWaitingForResponse :: bool
  pendingMessage :: "jsstring option"
  messageCountWhenSentRef :: int

text \<open>The initial values given to \<^verbatim>\<open>useState\<close> and \<^verbatim>\<open>useRef\<close>.\<close>

definition initial_state :: chat_state where
  "initial_state =
     \<lparr>inputMessage = [], isWaitingForResponse = False, pendingMessage = None,
      messageCountWhenSentRef = - 1\<rparr>"

text \<open>The textarea's \<^verbatim>\<open>onChange\<close> handler and the quick-action buttons.\<close>

definition setInputMessage :: "jsstring \<Rightarrow> chat_state \<Rightarrow> chat_state" where
  "setInputMessage v s = s\<lparr>inputMessage := v\<rparr>"

section \<open>Polling\<close>

text \<open>\<^verbatim>\<open>refetchInterval: isWaitingForResponse ? 1000 : 3000\<close> of the paper-writing query.\<close>

definition refetchInterval :: "chat_state \<Rightarrow> nat" where
  "refetchInterval s = (if isWaitingForResponse s then 1000 else 3000)"

section \<open>Response detection\<close>

text \<open>
  The body of the response-detection effect, run with the polled log \<open>messages\<close>. Both
  conditions read the values of the render the effect belongs to (\<open>s\<close>); the state
  setters and the assignment to the ref give the new state.
\<close>

definition onLogUpdated :: "message list \<Rightarrow> chat_state \<Rightarrow> chat_state" where
  "onLogUpdated messages s =
     (if length messages > 0 then
        let lastMsg = last messages;
            s1 = (if truthy (pendingMessage s) \<and> agent lastMsg = js ''user'' \<and>
                     Some (content lastMsg) = pendingMessage s
                  then s\<lparr>pendingMessage := None\<rparr> else s);
            s2 = (if isWaitingForResponse s \<and> agent lastMsg \<noteq> js ''user'' \<and>
                     int (length messages) > messageCountWhenSentRef s1
                  then s1\<lparr>isWaitingForResponse := False, pendingMessage := None,
                          messageCountWhenSentRef := - 1\<rparr>
                  else s1)
        in s2
      else s)"

section \<open>The watchdog\<close>

text \<open>
  The callback given to \<^verbatim>\<open>setTimeout\<close>, and the effect around it: the timer is set when
  a render has \<^verbatim>\<open>isWaitingForResponse\<close> true and the effect's cleanup clears it as soon
  as the flag changes, so the callback can only fire in a state that is still waiting.
\<close>

definition onTimeout :: "chat_state \<Rightarrow> chat_state" where
  "onTimeout s = s\<lparr>isWaitingForResponse := False\<rparr>"

definition timeoutFires :: "chat_state \<Rightarrow> chat_state option" where
  "timeoutFires s = (if isWaitingForResponse s then Some (onTimeout s) else None)"

section \<open>Sending\<close>

text \<open>
  \<^verbatim>\<open>handleSendMessage\<close> with the current log \<open>messages\<close>. The second component is the
  argument of \<^verbatim>\<open>sendMessage.mutate\<close> when the network send is issued, and \<open>None\<close> when
  the handler returns early. A string is falsy exactly when it is empty, so the guard
  \<^verbatim>\<open>!inputMessage.trim()\<close> is \<open>trim (inputMessage s) = []\<close>. The handler's effects on the
  DOM (\<^verbatim>\<open>preventDefault\<close>, the height of the textarea) touch none of the state below.
\<close>

definition handleSendMessage :: "message list \<Rightarrow> chat_state \<Rightarrow> chat_state \<times> jsstring option" where
  "handleSendMessage messages s =
     (if trim (inputMessage s) = [] \<or> isWaitingForResponse s then (s, None)
      else
        let messageToSend = trim (inputMessage s)
        in (s\<lparr>messageCountWhenSentRef := int (length messages),
               pendingMessage := Some messageToSend,
               isWaitingForResponse := True,
               inputMessage := []\<rparr>,
            Some messageToSend))"

text \<open>
  The \<^verbatim>\<open>onError\<close> callback of the mutation. It calls no \<^verbatim>\<open>mutate\<close>: the second
  component, the message handed to the network, is \<open>None\<close>.
\<close>

definition onError :: "chat_state \<Rightarrow> chat_state \<times> jsstring option" where
  "onError s =
     (s\<lparr>isWaitingForResponse := False, pendingMessage := None,
        messageCountWhenSentRef := - 1\<rparr>,
      None)"

section \<open>Timestamps\<close>

text \<open>
  \<^verbatim>\<open>formatTimestamp\<close> calls two built-ins of the JavaScript runtime. Their behaviour on
  the inputs the page gives them is fixed by ECMA-262 and ECMA-402:
  \<^item> \<^verbatim>\<open>new Date(string)\<close> never throws; the time value is the result of parsing the
    string, and NaN (here \<open>None\<close>) when the string is not a date. Which strings parse is
    left to the parameter \<open>parse\<close>.
  \<^item> \<^verbatim>\<open>toLocaleTimeString\<close> returns the string \<^verbatim>\<open>"Invalid Date"\<close> when the time value is
    NaN, and formats the time otherwise. The locale-dependent formatting is the parameter
    \<open>format\<close>, which may throw.
\<close>

datatype js_error = RangeError

definition new_Date :: "(jsstring \<Rightarrow> int option) \<Rightarrow> jsstring \<Rightarrow> int option" where
  "new_Date parse ts = parse ts"

definition toLocaleTimeString ::
    "(int \<Rightarrow> js_error + jsstring) \<Rightarrow> int option \<Rightarrow> js_error + jsstring" where
  "toLocaleTimeString format tv =
     (case tv of None \<Rightarrow> Inr (js ''Invalid Date'') | Some t \<Rightarrow> format t)"

text \<open>The \<^verbatim>\<open>try\<close> block returns the formatted string; the \<^verbatim>\<open>catch\<close> block returns \<^verbatim>\<open>''\<close>.\<close>

definition formatTimestamp ::
    "(jsstring \<Rightarrow> int option) \<Rightarrow> (int \<Rightarrow> js_error + jsstring) \<Rightarrow> jsstring \<Rightarrow>
     js_error + jsstring" where
  "formatTimestamp parse format ts =
     (case toLocaleTimeString format (new_Date parse ts) of
        Inl e \<Rightarrow> Inr []
      | Inr t \<Rightarrow> Inr t)"

section \<open>Reachable states\<close>

text \<open>
  The states the page can be in: it starts in the initial state, and every event runs one
  of the handlers above. The log handed to a handler is whatever the poll returned, so it
  is arbitrary here; the failure callback may run at any time after a send.
\<close>

inductive reachable :: "chat_state \<Rightarrow> bool" where
  init: "reachable initial_state"
| typing: "reachable s \<Longrightarrow> reachable (setInputMessage v s)"
| send: "reachable s \<Longrightarrow> reachable (fst (handleSendMessage messages s))"
| log: "reachable s \<Longrightarrow> reachable (onLogUpdated messages s)"
| timeout: "reachable s \<Longrightarrow> timeoutFires s = Some s' \<Longrightarrow> reachable s'"
| error: "reachable s \<Longrightarrow> reachable (fst (onError s))"

section \<open>Example runs\<close>

text \<open>The user types \<^verbatim>\<open>hello\<close> into the empty chat and sends it.\<close>

definition hello_typed :: chat_state where
  "hello_typed = setInputMessage (js ''hello'') initial_state"

definition hello_sent :: chat_state where
  "hello_sent = fst (handleSendMessage [] hello_typed)"

text \<open>The state after the watchdog has fired on that send.\<close>

definition hello_timed_out :: chat_state where
  "hello_timed_out = onTimeout hello_sent"

definition user_hello :: message where
  "user_hello =
     \<lparr>agent = js ''user'', content = js ''hello'', timestamp = js ''2025-01-01T09:00:00Z''\<rparr>"

definition system_reply :: message where
  "system_reply =
     \<lparr>agent = js ''system'', content = js ''ok'', timestamp = js ''2025-01-01T09:00:05Z''\<rparr>"

section \<open>Trimming\<close>

lemmas js_eval =
  js_def trim_def trimStart_def trimEnd_def isStrWhiteSpaceChar_def isWhiteSpace_def
  isLineTerminator_def

lemma trimEnd_prefix: "trimEnd s @ rev (takeWhile isStrWhiteSpaceChar (rev s)) = s"
proof -
  have "trimEnd s @ rev (takeWhile isStrWhiteSpaceChar (rev s)) =
        rev (takeWhile isStrWhiteSpaceChar (rev s) @ dropWhile isStrWhiteSpaceChar (rev s))"
    by (simp only: trimEnd_def rev_append)
  also have "\<dots> = rev (rev s)" by (simp only: takeWhile_dropWhile_id)
  finally show ?thesis by simp
qed

lemma trimStart_hd: "trimStart s \<noteq> [] \<Longrightarrow> \<not> isStrWhiteSpaceChar (hd (trimStart s))"
  unfolding trimStart_def by (rule hd_dropWhile)

lemma trimEnd_last: "trimEnd s \<noteq> [] \<Longrightarrow> \<not> isStrWhiteSpaceChar (last (trimEnd s))"
  unfolding trimEnd_def by (simp add: last_rev hd_dropWhile)

lemma trimEnd_hd: "trimEnd s \<noteq> [] \<Longrightarrow> hd (trimEnd s) = hd s"
  using trimEnd_prefix [of s] by (metis hd_append2)

lemma trimEnd_Nil_iff: "trimEnd s = [] \<longleftrightarrow> (\<forall>c \<in> set s. isStrWhiteSpaceChar c)"
  by (simp add: trimEnd_def dropWhile_eq_Nil_conv)

lemma trimStart_Nil_iff: "trimStart s = [] \<longleftrightarrow> (\<forall>c \<in> set s. isStrWhiteSpaceChar c)"
  by (simp add: trimStart_def dropWhile_eq_Nil_conv)

text \<open>A string trims to the empty string exactly when it consists of white space only.\<close>

lemma trim_Nil_iff: "trim s = [] \<longleftrightarrow> (\<forall>c \<in> set s. isStrWhiteSpaceChar c)"
proof
  assume "trim s = []"
  then have all: "\<forall>c \<in> set (trimStart s). isStrWhiteSpaceChar c"
    by (simp add: trim_def trimEnd_Nil_iff)
  have "trimStart s = []"
  proof (rule ccontr)
    assume ne: "trimStart s \<noteq> []"
    then have "hd (trimStart s) \<in> set (trimStart s)" by simp
    with all have "isStrWhiteSpaceChar (hd (trimStart s))" by blast
    with trimStart_hd [OF ne] show False by contradiction
  qed
  then show "\<forall>c \<in> set s. isStrWhiteSpaceChar c" by (simp add: trimStart_Nil_iff)
next
  assume "\<forall>c \<in> set s. isStrWhiteSpaceChar c"
  then have "trimStart s = []" by (simp add: trimStart_Nil_iff)
  then show "trim s = []" by (simp add: trim_def trimEnd_def)
qed

text \<open>A trimmed string neither starts nor ends with white space.\<close>

lemma trim_ends:
  assumes "trim s \<noteq> []"
  shows "\<not> isStrWhiteSpaceChar (hd (trim s))" and "\<not> isStrWhiteSpaceChar (last (trim s))"
proof -
  from assms have ne: "trimStart s \<noteq> []" by (auto simp: trim_def trimEnd_def)
  from assms have "hd (trim s) = hd (trimStart s)" unfolding trim_def by (rule trimEnd_hd)
  with trimStart_hd [OF ne] show "\<not> isStrWhiteSpaceChar (hd (trim s))" by simp
  from assms show "\<not> isStrWhiteSpaceChar (last (trim s))" unfolding trim_def by (rule trimEnd_last)
qed

lemma trimStart_id: "s \<noteq> [] \<Longrightarrow> \<not> isStrWhiteSpaceChar (hd s) \<Longrightarrow> trimStart s = s"
  by (cases s) (simp_all add: trimStart_def)

lemma trimEnd_id: "s \<noteq> [] \<Longrightarrow> \<not> isStrWhiteSpaceChar (last s) \<Longrightarrow> trimEnd s = s"
  by (cases "rev s") (simp_all add: trimEnd_def last_rev hd_rev)

lemma trim_idem: "trim (trim s) = trim s"
proof (cases "trim s = []")
  case True
  have "trim [] = []" by (simp add: trim_def trimStart_def trimEnd_def)
  with True show ?thesis by simp
next
  case False
  from trim_ends [OF False] False have "trimStart (trim s) = trim s" "trimEnd (trim s) = trim s"
    by (simp_all add: trimStart_id trimEnd_id)
  then show ?thesis by (simp add: trim_def)
qed

section \<open>The example runs, evaluated\<close>

lemma trim_hello: "trim (js ''hello'') = js ''hello''"
  by (simp add: js_eval)

lemma trim_again: "trim (js ''again'') = js ''again''"
  by (simp add: js_eval)

lemma trim_padded_hi: "trim ([0x20, 0x09] @ js ''hi'' @ [0x3000, 0x0A]) = js ''hi''"
  by (simp add: js_eval)

lemma js_user_ne_system: "js ''system'' \<noteq> js ''user''"
  by (simp add: js_def)

lemma hello_typed_eq:
  "hello_typed =
     \<lparr>inputMessage = js ''hello'', isWaitingForResponse = False, pendingMessage = None,
      messageCountWhenSentRef = - 1\<rparr>"
  by (simp add: hello_typed_def setInputMessage_def initial_state_def)

lemma hello_sent_eq:
  "hello_sent =
     \<lparr>inputMessage = [], isWaitingForResponse = True, pendingMessage = Some (js ''hello''),
      messageCountWhenSentRef = 0\<rparr>"
  by (simp add: hello_sent_def handleSendMessage_def hello_typed_eq trim_hello Let_def)
     (simp add: js_def)

lemma hello_timed_out_eq:
  "hello_timed_out =
     \<lparr>inputMessage = [], isWaitingForResponse = False, pendingMessage = Some (js ''hello''),
      messageCountWhenSentRef = 0\<rparr>"
  by (simp add: hello_timed_out_def onTimeout_def hello_sent_eq)

lemma reachable_hello_sent: "reachable hello_sent"
  unfolding hello_sent_def hello_typed_def
  by (intro reachable.send reachable.typing reachable.init)

lemma reachable_hello_timed_out: "reachable hello_timed_out"
proof -
  have "timeoutFires hello_sent = Some hello_timed_out"
    by (simp add: timeoutFires_def hello_timed_out_def hello_sent_eq)
  with reachable_hello_sent show ?thesis by (rule reachable.timeout)
qed

section \<open>Response detection: a response arrives\<close>

text \<open>
  The second branch of the effect is guarded by \<^verbatim>\<open>isWaitingForResponse\<close>: when the page
  is not waiting, a log that ends with an agent's message changes nothing.
\<close>

lemma onLogUpdated_not_waiting:
  "\<not> isWaitingForResponse s \<Longrightarrow> messages \<noteq> [] \<Longrightarrow> agent (last messages) \<noteq> js ''user'' \<Longrightarrow>
   onLogUpdated messages s = s"
  by (simp add: onLogUpdated_def Let_def)

text \<open>
  C1, as stated without the guard, fails once the watchdog has cleared the waiting flag:
  a response that arrives later leaves the pending message of the abandoned send in
  place. The state is reached by typing \<^verbatim>\<open>hello\<close>, sending it on an empty log and
  letting the watchdog fire (\<open>reachable_hello_timed_out\<close>); the log then holds the echo and
  a reply of the system agent, so its last entry is not the user's and its length 2
  exceeds the snapshot 0.
\<close>

theorem response_after_timeout_keeps_pending:
  "[user_hello, system_reply] \<noteq> [] \<and>
   agent (last [user_hello, system_reply]) \<noteq> js ''user'' \<and>
   int (length [user_hello, system_reply]) > messageCountWhenSentRef hello_timed_out \<and>
   pendingMessage (onLogUpdated [user_hello, system_reply] hello_timed_out) = Some (js ''hello'')"
  by (simp add: hello_timed_out_eq onLogUpdated_def Let_def system_reply_def js_user_ne_system)

text \<open>
  C1 (amended). For every call of onLogUpdated made while the waiting flag is true, with a
  non-empty message log whose last entry is from a non-user agent and whose length is
  strictly greater than the length snapshot taken at send time, both the waiting flag and
  the pending message are cleared: isWaitingForResponse becomes false and pendingMessage
  becomes null. The snapshot is reset to -1 and the input field is left as it is.
\<close>

theorem response_clears_waiting_and_pending:
  assumes "isWaitingForResponse s"
    and "messages \<noteq> []"
    and "agent (last messages) \<noteq> js ''user''"
    and "int (length messages) > messageCountWhenSentRef s"
  shows "isWaitingForResponse (onLogUpdated messages s) = False \<and>
         pendingMessage (onLogUpdated messages s) = None \<and>
         messageCountWhenSentRef (onLogUpdated messages s) = - 1 \<and>
         inputMessage (onLogUpdated messages s) = inputMessage s"
  using assms by (simp add: onLogUpdated_def Let_def)

theorem response_clears_waiting_and_pending_witness:
  "isWaitingForResponse hello_sent \<and>
   isWaitingForResponse (onLogUpdated [user_hello, system_reply] hello_sent) = False \<and>
   pendingMessage (onLogUpdated [user_hello, system_reply] hello_sent) = None"
proof -
  have w: "isWaitingForResponse hello_sent" by (simp add: hello_sent_eq)
  moreover have "[user_hello, system_reply] \<noteq> []" by simp
  moreover have "agent (last [user_hello, system_reply]) \<noteq> js ''user''"
    by (simp add: system_reply_def js_user_ne_system)
  moreover have "int (length [user_hello, system_reply]) > messageCountWhenSentRef hello_sent"
    by (simp add: hello_sent_eq)
  ultimately have
    "isWaitingForResponse (onLogUpdated [user_hello, system_reply] hello_sent) = False \<and>
     pendingMessage (onLogUpdated [user_hello, system_reply] hello_sent) = None \<and>
     messageCountWhenSentRef (onLogUpdated [user_hello, system_reply] hello_sent) = - 1 \<and>
     inputMessage (onLogUpdated [user_hello, system_reply] hello_sent) = inputMessage hello_sent"
    by (rule response_clears_waiting_and_pending)
  with w show ?thesis by blast
qed

section \<open>Sending\<close>

text \<open>
  C2. For every send where the trimmed text of the input field is non-empty and the
  reconciler is not already waiting: the current length of the message log is recorded as
  the snapshot, the (trimmed) text is stored as the pending message and handed to the
  network send, the waiting flag becomes true and the input field is cleared. If the
  reconciler is already waiting, or the text is empty (or trims to the empty string), the
  send leaves the state unchanged and issues no network send.
\<close>

theorem send_stores_pending:
  "(trim (inputMessage s) \<noteq> [] \<and> \<not> isWaitingForResponse s \<longrightarrow>
      handleSendMessage messages s =
        (\<lparr>inputMessage = [], isWaitingForResponse = True,
          pendingMessage = Some (trim (inputMessage s)),
          messageCountWhenSentRef = int (length messages)\<rparr>,
         Some (trim (inputMessage s)))) \<and>
   (isWaitingForResponse s \<or> trim (inputMessage s) = [] \<longrightarrow>
      handleSendMessage messages s = (s, None))"
  by (cases s) (auto simp add: handleSendMessage_def Let_def)

theorem send_stores_pending_witness:
  "handleSendMessage [] hello_typed =
     (\<lparr>inputMessage = [], isWaitingForResponse = True, pendingMessage = Some (js ''hello''),
       messageCountWhenSentRef = 0\<rparr>, Some (js ''hello'')) \<and>
   handleSendMessage [user_hello] hello_sent = (hello_sent, None) \<and>
   handleSendMessage [] initial_state = (initial_state, None)"
proof -
  have a: "trim (inputMessage hello_typed) \<noteq> [] \<and> \<not> isWaitingForResponse hello_typed"
    by (simp add: hello_typed_eq trim_hello) (simp add: js_def)
  have b: "isWaitingForResponse hello_sent \<or> trim (inputMessage hello_sent) = []"
    by (simp add: hello_sent_eq)
  have c: "isWaitingForResponse initial_state \<or> trim (inputMessage initial_state) = []"
    by (simp add: initial_state_def js_eval)
  from a send_stores_pending [of hello_typed "[]"]
  have "handleSendMessage [] hello_typed =
     (\<lparr>inputMessage = [], isWaitingForResponse = True,
       pendingMessage = Some (trim (inputMessage hello_typed)),
       messageCountWhenSentRef = int (length ([]::message list))\<rparr>,
      Some (trim (inputMessage hello_typed)))" by blast
  then have 1: "handleSendMessage [] hello_typed =
     (\<lparr>inputMessage = [], isWaitingForResponse = True, pendingMessage = Some (js ''hello''),
       messageCountWhenSentRef = 0\<rparr>, Some (js ''hello''))"
    by (simp add: hello_typed_eq trim_hello)
  from b send_stores_pending [of hello_sent "[user_hello]"]
  have 2: "handleSendMessage [user_hello] hello_sent = (hello_sent, None)" by blast
  from c send_stores_pending [of initial_state "[]"]
  have 3: "handleSendMessage [] initial_state = (initial_state, None)" by blast
  from 1 2 3 show ?thesis by blast
qed

text \<open>
  C9. The text recorded as the pending message and handed to the network send is the
  whitespace-trimmed input: it neither starts nor ends with white space. For every input
  consisting only of white space the send is a no-op, and the pending message a send
  stores is never equal to an untrimmed input that differs from its trim.
\<close>

theorem send_uses_trimmed_input:
  "((\<forall>c \<in> set (inputMessage s). isStrWhiteSpaceChar c) \<longrightarrow>
      handleSendMessage messages s = (s, None)) \<and>
   (\<not> isWaitingForResponse s \<and> trim (inputMessage s) \<noteq> [] \<longrightarrow>
      snd (handleSendMessage messages s) = Some (trim (inputMessage s)) \<and>
      pendingMessage (fst (handleSendMessage messages s)) = Some (trim (inputMessage s)) \<and>
      \<not> isStrWhiteSpaceChar (hd (trim (inputMessage s))) \<and>
      \<not> isStrWhiteSpaceChar (last (trim (inputMessage s))) \<and>
      (inputMessage s \<noteq> trim (inputMessage s) \<longrightarrow>
         pendingMessage (fst (handleSendMessage messages s)) \<noteq> Some (inputMessage s)))"
proof (intro conjI impI)
  assume "\<forall>c \<in> set (inputMessage s). isStrWhiteSpaceChar c"
  then have "trim (inputMessage s) = []" by (simp add: trim_Nil_iff)
  then show "handleSendMessage messages s = (s, None)" by (simp add: handleSendMessage_def)
next
  assume a: "\<not> isWaitingForResponse s \<and> trim (inputMessage s) \<noteq> []"
  then show "snd (handleSendMessage messages s) = Some (trim (inputMessage s))"
    by (simp add: handleSendMessage_def Let_def)
  from a show p: "pendingMessage (fst (handleSendMessage messages s)) = Some (trim (inputMessage s))"
    by (simp add: handleSendMessage_def Let_def)
  from a show "\<not> isStrWhiteSpaceChar (hd (trim (inputMessage s)))" by (simp add: trim_ends)
  from a show "\<not> isStrWhiteSpaceChar (last (trim (inputMessage s)))" by (simp add: trim_ends)
  assume "inputMessage s \<noteq> trim (inputMessage s)"
  with p show "pendingMessage (fst (handleSendMessage messages s)) \<noteq> Some (inputMessage s)"
    by simp
qed

theorem send_uses_trimmed_input_witness:
  "handleSendMessage [] (setInputMessage [0x20, 0x09, 0x3000, 0x0A] initial_state) =
     (setInputMessage [0x20, 0x09, 0x3000, 0x0A] initial_state, None) \<and>
   snd (handleSendMessage [] (setInputMessage ([0x20, 0x09] @ js ''hi'' @ [0x3000, 0x0A]) initial_state))
     = Some (js ''hi'') \<and>
   pendingMessage (fst (handleSendMessage []
       (setInputMessage ([0x20, 0x09] @ js ''hi'' @ [0x3000, 0x0A]) initial_state)))
     = Some (js ''hi'') \<and>
   pendingMessage (fst (handleSendMessage []
       (setInputMessage ([0x20, 0x09] @ js ''hi'' @ [0x3000, 0x0A]) initial_state)))
     \<noteq> Some ([0x20, 0x09] @ js ''hi'' @ [0x3000, 0x0A])"
proof -
  let ?blank = "setInputMessage [0x20, 0x09, 0x3000, 0x0A] initial_state"
  let ?padded = "setInputMessage ([0x20, 0x09] @ js ''hi'' @ [0x3000, 0x0A]) initial_state"
  have blank: "\<forall>c \<in> set (inputMessage ?blank). isStrWhiteSpaceChar c"
    by (simp add: setInputMessage_def isStrWhiteSpaceChar_def isWhiteSpace_def isLineTerminator_def)
  have inp: "inputMessage ?padded = [0x20, 0x09] @ js ''hi'' @ [0x3000, 0x0A]"
    by (simp add: setInputMessage_def)
  have padded: "\<not> isWaitingForResponse ?padded \<and> trim (inputMessage ?padded) \<noteq> []"
    unfolding inp trim_padded_hi by (simp add: setInputMessage_def initial_state_def js_def)
  have diff: "inputMessage ?padded \<noteq> trim (inputMessage ?padded)"
    unfolding inp trim_padded_hi by (simp add: js_def)
  from send_uses_trimmed_input [of ?blank "[]"] blank
  have 1: "handleSendMessage [] ?blank = (?blank, None)" by blast
  from send_uses_trimmed_input [of ?padded "[]"] padded diff
  have 2: "snd (handleSendMessage [] ?padded) = Some (trim (inputMessage ?padded))"
    "pendingMessage (fst (handleSendMessage [] ?padded)) = Some (trim (inputMessage ?padded))"
    "pendingMessage (fst (handleSendMessage [] ?padded)) \<noteq> Some (inputMessage ?padded)"
    by blast+
  from 1 2 show ?thesis unfolding inp trim_padded_hi by blast
qed

text \<open>
  C5. For every send whose network transmission fails, the failure callback clears the
  pending message and the waiting flag and resets the send-time snapshot to -1: the
  reconciliation state is back at its idle (initial) value, and the callback hands nothing
  to the network (no retry). Run right after the send, whose input field is already
  cleared, it gives back the initial state as a whole.
\<close>

theorem send_failure_rolls_back:
  "onError s = (initial_state\<lparr>inputMessage := inputMessage s\<rparr>, None) \<and>
   isWaitingForResponse (fst (onError s)) = False \<and>
   pendingMessage (fst (onError s)) = None \<and>
   messageCountWhenSentRef (fst (onError s)) = - 1 \<and>
   (handleSendMessage messages s0 = (s1, Some m) \<longrightarrow> onError s1 = (initial_state, None))"
proof -
  have "onError s1 = (initial_state, None)" if "handleSendMessage messages s0 = (s1, Some m)"
  proof -
    from that have "inputMessage s1 = []"
      by (auto simp add: handleSendMessage_def Let_def split: if_splits)
    then show ?thesis by (simp add: onError_def initial_state_def)
  qed
  then show ?thesis by (simp add: onError_def initial_state_def)
qed

theorem send_failure_rolls_back_witness:
  "handleSendMessage [] hello_typed = (hello_sent, Some (js ''hello'')) \<and>
   onError hello_sent = (initial_state, None)"
proof -
  have sent: "handleSendMessage [] hello_typed = (hello_sent, Some (js ''hello''))"
    by (simp add: hello_sent_eq handleSendMessage_def hello_typed_eq trim_hello Let_def)
       (simp add: js_def)
  with send_failure_rolls_back [of hello_sent "[]" hello_typed hello_sent "js ''hello''"]
  have "onError hello_sent = (initial_state, None)" by blast
  with sent show ?thesis by blast
qed

section \<open>Response detection: the echo of the user's own message\<close>

text \<open>
  The pending message is only ever set by \<^verbatim>\<open>handleSendMessage\<close>, to a trimmed, non-empty
  string: no reachable state holds the empty string as its pending message, so a pending
  message that is set is truthy.
\<close>

lemma reachable_pending_nonempty:
  "reachable s \<Longrightarrow> pendingMessage s \<noteq> Some []"
proof (induction rule: reachable.induct)
  case init
  show ?case by (simp add: initial_state_def)
next
  case (typing s v)
  then show ?case by (simp add: setInputMessage_def)
next
  case (send s messages)
  then show ?case by (simp add: handleSendMessage_def Let_def)
next
  case (log s messages)
  then show ?case by (simp add: onLogUpdated_def Let_def)
next
  case (timeout s s')
  then show ?case by (auto simp add: timeoutFires_def onTimeout_def split: if_splits)
next
  case (error s)
  show ?case by (simp add: onError_def)
qed

text \<open>
  C3. For every call of onLogUpdated (in a state the page can reach) with a non-empty log
  whose last entry has agent equal to 'user' and content equal to the current pending
  message, the pending message is cleared while the waiting flag is left unchanged (still
  true when it was true); the snapshot and the input field are left unchanged as well.
\<close>

theorem echo_clears_pending:
  assumes "reachable s"
    and "messages \<noteq> []"
    and "agent (last messages) = js ''user''"
    and "pendingMessage s = Some (content (last messages))"
  shows "pendingMessage (onLogUpdated messages s) = None \<and>
         isWaitingForResponse (onLogUpdated messages s) = isWaitingForResponse s \<and>
         onLogUpdated messages s = s\<lparr>pendingMessage := None\<rparr>"
proof -
  from assms(1) have "pendingMessage s \<noteq> Some []" by (rule reachable_pending_nonempty)
  with assms(4) have "truthy (pendingMessage s)" by (simp add: truthy_def)
  with assms(2-4) show ?thesis by (simp add: onLogUpdated_def Let_def)
qed

theorem echo_clears_pending_witness:
  "reachable hello_sent \<and>
   pendingMessage hello_sent = Some (content (last [user_hello])) \<and>
   pendingMessage (onLogUpdated [user_hello] hello_sent) = None \<and>
   isWaitingForResponse (onLogUpdated [user_hello] hello_sent) = True"
proof -
  have p: "pendingMessage hello_sent = Some (content (last [user_hello]))"
    by (simp add: hello_sent_eq user_hello_def)
  have a: "agent (last [user_hello]) = js ''user''" by (simp add: user_hello_def)
  have n: "[user_hello] \<noteq> []" by simp
  have w: "isWaitingForResponse hello_sent = True" by (simp add: hello_sent_eq)
  from echo_clears_pending [OF reachable_hello_sent n a p] w
  have "pendingMessage (onLogUpdated [user_hello] hello_sent) = None"
    and "isWaitingForResponse (onLogUpdated [user_hello] hello_sent) = True"
    by simp_all
  with reachable_hello_sent p show ?thesis by blast
qed

section \<open>Response detection after resolution\<close>

lemma onLogUpdated_resolved:
  "pendingMessage s = None \<Longrightarrow> \<not> isWaitingForResponse s \<Longrightarrow> onLogUpdated messages s = s"
  by (simp add: onLogUpdated_def Let_def truthy_def)

text \<open>
  C6. Idempotence after resolution: once a send has been resolved (the pending message is
  null and the waiting flag is false), applying onLogUpdated any number of times with the
  same log leaves the state unchanged.
\<close>

theorem onLogUpdated_idempotent_after_resolution:
  assumes "pendingMessage s = None" and "\<not> isWaitingForResponse s"
  shows "(onLogUpdated messages ^^ n) s = s"
proof (induction n)
  case 0
  show ?case by simp
next
  case (Suc n)
  from assms have "onLogUpdated messages s = s" by (rule onLogUpdated_resolved)
  with Suc show ?case by simp
qed

theorem onLogUpdated_idempotent_after_resolution_witness:
  "pendingMessage (onLogUpdated [user_hello, system_reply] hello_sent) = None \<and>
   \<not> isWaitingForResponse (onLogUpdated [user_hello, system_reply] hello_sent) \<and>
   (onLogUpdated [user_hello, system_reply] ^^ 3)
     (onLogUpdated [user_hello, system_reply] hello_sent) =
   onLogUpdated [user_hello, system_reply] hello_sent"
proof -
  have eq: "onLogUpdated [user_hello, system_reply] hello_sent =
     \<lparr>inputMessage = [], isWaitingForResponse = False, pendingMessage = None,
      messageCountWhenSentRef = - 1\<rparr>"
    by (simp add: hello_sent_eq onLogUpdated_def Let_def system_reply_def js_user_ne_system
        truthy_def)
  have p: "pendingMessage (onLogUpdated [user_hello, system_reply] hello_sent) = None"
    and w: "\<not> isWaitingForResponse (onLogUpdated [user_hello, system_reply] hello_sent)"
    by (simp_all add: eq)
  from onLogUpdated_idempotent_after_resolution
      [OF p w, where messages = "[user_hello, system_reply]" and n = 3] p w
  show ?thesis by blast
qed

section \<open>The watchdog\<close>

text \<open>
  C4. When the watchdog fires while the reconciler is still waiting, the waiting flag is
  forced to false and every other component of the state, in particular the pending
  message, is left unchanged. It fires once: in the state it leaves, no timer is set.
  After the timeout a new send is no longer blocked, even though the pending message of
  the abandoned send is still set: a send of a text that does not trim to the empty
  string goes through.
\<close>

theorem timeout_clears_waiting_only:
  assumes "isWaitingForResponse s"
  shows "timeoutFires s = Some (onTimeout s) \<and>
         \<not> isWaitingForResponse (onTimeout s) \<and>
         pendingMessage (onTimeout s) = pendingMessage s \<and>
         messageCountWhenSentRef (onTimeout s) = messageCountWhenSentRef s \<and>
         inputMessage (onTimeout s) = inputMessage s \<and>
         timeoutFires (onTimeout s) = None \<and>
         (trim v \<noteq> [] \<longrightarrow>
            handleSendMessage messages (setInputMessage v (onTimeout s)) =
              (\<lparr>inputMessage = [], isWaitingForResponse = True,
                pendingMessage = Some (trim v),
                messageCountWhenSentRef = int (length messages)\<rparr>,
               Some (trim v)))"
proof -
  have fire: "timeoutFires s = Some (onTimeout s)"
    using assms by (simp add: timeoutFires_def)
  have frame: "\<not> isWaitingForResponse (onTimeout s)"
    "pendingMessage (onTimeout s) = pendingMessage s"
    "messageCountWhenSentRef (onTimeout s) = messageCountWhenSentRef s"
    "inputMessage (onTimeout s) = inputMessage s"
    by (simp_all add: onTimeout_def)
  have once: "timeoutFires (onTimeout s) = None"
    using frame(1) by (simp add: timeoutFires_def)
  have resend: "handleSendMessage messages (setInputMessage v (onTimeout s)) =
      (\<lparr>inputMessage = [], isWaitingForResponse = True, pendingMessage = Some (trim v),
        messageCountWhenSentRef = int (length messages)\<rparr>, Some (trim v))"
    if "trim v \<noteq> []"
    using that
    by (cases s) (simp add: handleSendMessage_def setInputMessage_def onTimeout_def Let_def)
  from fire frame once resend show ?thesis by blast
qed

theorem timeout_clears_waiting_only_witness:
  "timeoutFires hello_sent = Some hello_timed_out \<and>
   \<not> isWaitingForResponse hello_timed_out \<and>
   pendingMessage hello_timed_out = Some (js ''hello'') \<and>
   timeoutFires hello_timed_out = None \<and>
   handleSendMessage [] (setInputMessage (js ''again'') hello_timed_out) =
     (\<lparr>inputMessage = [], isWaitingForResponse = True, pendingMessage = Some (js ''again''),
       messageCountWhenSentRef = 0\<rparr>, Some (js ''again''))"
proof -
  have w: "isWaitingForResponse hello_sent" by (simp add: hello_sent_eq)
  have p: "pendingMessage hello_sent = Some (js ''hello'')" by (simp add: hello_sent_eq)
  have ne: "trim (js ''again'') \<noteq> []" by (simp add: trim_again) (simp add: js_def)
  note fired =
    timeout_clears_waiting_only [OF w, of "js ''again''" "[]", folded hello_timed_out_def]
  from fired ne p show ?thesis by (simp add: trim_again)
qed

section \<open>Polling interval\<close>

lemma refetchInterval_cases:
  "refetchInterval s = 1000 \<or> refetchInterval s = 3000"
  by (simp add: refetchInterval_def)

text \<open>
  C8. The poll interval chosen while waiting for a response (1000 ms) is strictly shorter
  than the one chosen while not waiting (3000 ms).
\<close>

theorem refetchInterval_waiting_shorter:
  assumes "isWaitingForResponse s" and "\<not> isWaitingForResponse s'"
  shows "refetchInterval s < refetchInterval s' \<and>
         refetchInterval s = 1000 \<and> refetchInterval s' = 3000"
  using assms by (simp add: refetchInterval_def)

theorem refetchInterval_waiting_shorter_witness:
  "isWaitingForResponse hello_sent \<and> \<not> isWaitingForResponse hello_timed_out \<and>
   refetchInterval hello_sent < refetchInterval hello_timed_out \<and>
   refetchInterval hello_sent = 1000 \<and> refetchInterval hello_timed_out = 3000"
proof -
  have w: "isWaitingForResponse hello_sent" by (simp add: hello_sent_eq)
  have n: "\<not> isWaitingForResponse hello_timed_out" by (simp add: hello_timed_out_eq)
  from refetchInterval_waiting_shorter [OF w n] w n show ?thesis by blast
qed

section \<open>Timestamps\<close>

text \<open>The function returns a string for every input: it never throws.\<close>

lemma formatTimestamp_never_throws: "\<exists>t. formatTimestamp parse format ts = Inr t"
  by (simp add: formatTimestamp_def split: sum.splits)

text \<open>
  The \<^verbatim>\<open>catch\<close> block runs only when the formatting of a valid date throws. A string
  that does not parse gives an invalid date, for which \<^verbatim>\<open>toLocaleTimeString\<close> returns
  \<^verbatim>\<open>"Invalid Date"\<close> without throwing.
\<close>

lemma formatTimestamp_unparsable:
  "parse ts = None \<Longrightarrow> formatTimestamp parse format ts = Inr (js ''Invalid Date'')"
  by (simp add: formatTimestamp_def toLocaleTimeString_def new_Date_def)

lemma formatTimestamp_empty_only_on_throw:
  "parse ts = Some t \<Longrightarrow> format t = Inl e \<Longrightarrow> formatTimestamp parse format ts = Inr []"
  by (simp add: formatTimestamp_def toLocaleTimeString_def new_Date_def)

text \<open>
  C7. The claim is that the formatter never throws and returns the empty string for every
  malformed timestamp. For a timestamp \<open>ts\<close> that the runtime's date parser rejects, the
  function returns the string \<^verbatim>\<open>"Invalid Date"\<close>, which is not the empty string.
\<close>

theorem formatTimestamp_malformed_not_empty:
  "formatTimestamp (parse(ts := None)) format ts = Inr (js ''Invalid Date'') \<and>
   formatTimestamp (parse(ts := None)) format ts \<noteq> Inr []"
  by (simp add: formatTimestamp_def toLocaleTimeString_def new_Date_def) (simp add: js_def)

end
